theory Spec2Isabelle
  imports Main
begin

section \<open>The search index of the ropy documentation\<close>

text \<open>
  \<^verbatim>\<open>src/searchindex.js\<close> is one statement, \<^verbatim>\<open>Search.setIndex({...})\<close>: a call whose
  argument is an object literal with the properties \<^verbatim>\<open>docnames\<close>, \<^verbatim>\<open>envversion\<close>,
  \<^verbatim>\<open>filenames\<close>, \<^verbatim>\<open>objects\<close>, \<^verbatim>\<open>objnames\<close>, \<^verbatim>\<open>objtypes\<close>, \<^verbatim>\<open>terms\<close>,
  \<^verbatim>\<open>titles\<close> and \<^verbatim>\<open>titleterms\<close>. The literal is embedded value by value, in the order
  of the source.
\<close>

subsection \<open>JavaScript values that occur in the literal\<close>

text \<open>
  An object literal is kept as the list of its \<^verbatim>\<open>key: value\<close> entries in source
  order. All numbers of the literal are integer literals; they are embedded as \<open>int\<close>.
\<close>

type_synonym 'v jsobject = "(string \<times> 'v) list"

text \<open>
  Reading the own property \<open>k\<close> of an object literal. When a key is written twice,
  JavaScript keeps the value written last, so the entries after the current one are
  consulted first. \<open>None\<close> stands for \<^verbatim>\<open>undefined\<close>.
\<close>

fun obj_get :: "'v jsobject \<Rightarrow> string \<Rightarrow> 'v option" where
  "obj_get [] k = None"
| "obj_get ((k', v) # kvs) k =
     (case obj_get kvs k of
        Some w \<Rightarrow> Some w
      | None \<Rightarrow> (if k' = k then Some v else None))"

definition obj_keys :: "'v jsobject \<Rightarrow> string set" where
  "obj_keys kvs = set (map fst kvs)"

text \<open>
  Reading the element \<open>i\<close> of an array: \<^verbatim>\<open>xs[i]\<close> is \<^verbatim>\<open>undefined\<close> outside
  \<open>0 \<le> i < xs.length\<close>.
\<close>

definition arr_get :: "'a list \<Rightarrow> int \<Rightarrow> 'a option" where
  "arr_get xs i = (if 0 \<le> i \<and> i < int (length xs) then Some (xs ! nat i) else None)"

text \<open>
  A number used as a property key is converted to its decimal string
  (\<^verbatim>\<open>objtypes[2]\<close> reads the property \<^verbatim>\<open>"2"\<close>).
\<close>

definition digit_char :: "nat \<Rightarrow> char" where
  "digit_char d = ''0123456789'' ! d"

fun nat_tostring :: "nat \<Rightarrow> string" where
  "nat_tostring n =
     (if n < 10 then [digit_char n] else nat_tostring (n div 10) @ [digit_char (n mod 10)])"

declare nat_tostring.simps [simp del]

definition js_tostring :: "int \<Rightarrow> string" where
  "js_tostring i = (if i < 0 then CHR ''-'' # nat_tostring (nat (- i)) else nat_tostring (nat i))"

subsection \<open>The shape of the index\<close>

text \<open>
  A value of \<^verbatim>\<open>terms\<close> or \<^verbatim>\<open>titleterms\<close> is either a bare number (\<^verbatim>\<open>"class":0\<close>) or
  an array of numbers (\<^verbatim>\<open>"4x4":[1,2]\<close>).
\<close>

datatype posting = Doc int | Docs "int list"

fun posting_docs :: "posting \<Rightarrow> int list" where
  "posting_docs (Doc d) = [d]"
| "posting_docs (Docs ds) = ds"

text \<open>
  A value of the inner objects of \<^verbatim>\<open>objects\<close> is an array of four elements, such as
  \<^verbatim>\<open>[2,1,1,""]\<close>: the document the object is described in, its kind (a key of
  \<^verbatim>\<open>objtypes\<close> and \<^verbatim>\<open>objnames\<close>), a priority and an anchor.
\<close>

datatype objentry = ObjEntry (docindex: int) (objtype: int) (priority: int) (anchor: string)

record index =
  docnames :: "string list"
  envversion :: "int jsobject"
  filenames :: "string list"
  objects :: "objentry jsobject jsobject"
  objnames :: "string list jsobject"
  objtypes :: "string jsobject"
  terms :: "posting jsobject"
  titles :: "string list"
  titleterms :: "posting jsobject"

subsection \<open>The literal\<close>

definition index_docnames :: "string list" where
  "index_docnames = [''index'', ''intro'', ''roboticstoolbox'']"

definition index_envversion :: "int jsobject" where
  "index_envversion =
  [
   (''sphinx.domains.c'', 2), (''sphinx.domains.changeset'', 1),
   (''sphinx.domains.citation'', 1), (''sphinx.domains.cpp'', 3),
   (''sphinx.domains.index'', 1), (''sphinx.domains.javascript'', 2),
   (''sphinx.domains.math'', 2), (''sphinx.domains.python'', 2), (''sphinx.domains.rst'', 2),
   (''sphinx.domains.std'', 1), (''sphinx.ext.todo'', 2), (''sphinx.ext.viewcode'', 1),
   (''sphinx'', 56)
  ]"

definition index_filenames :: "string list" where
  "index_filenames = [''index.rst'', ''intro.rst'', ''roboticstoolbox.rst'']"

definition objects_ropy_robot :: "objentry jsobject" where
  "objects_ropy_robot =
  [
   (''Link'', ObjEntry 2 0 0 ''-''), (''Prismatic'', ObjEntry 2 0 0 ''-''),
   (''Revolute'', ObjEntry 2 0 0 ''-''), (''SerialLink'', ObjEntry 2 0 0 ''-'')
  ]"

definition objects_ropy_robot_Link :: "objentry jsobject" where
  "objects_ropy_robot_Link =
  [
   (''Link'', ObjEntry 2 1 1 '''')
  ]"

definition objects_ropy_robot_Link_Link :: "objentry jsobject" where
  "objects_ropy_robot_Link_Link =
  [
   (''A'', ObjEntry 2 2 1 ''''), (''B'', ObjEntry 2 2 1 ''''), (''G'', ObjEntry 2 2 1 ''''),
   (''I'', ObjEntry 2 2 1 ''''), (''Jm'', ObjEntry 2 2 1 ''''), (''Tc'', ObjEntry 2 2 1 ''''),
   (''a'', ObjEntry 2 2 1 ''''), (''alpha'', ObjEntry 2 2 1 ''''),
   (''d'', ObjEntry 2 2 1 ''''), (''dyn'', ObjEntry 2 2 1 ''''),
   (''flip'', ObjEntry 2 2 1 ''''), (''friction'', ObjEntry 2 2 1 ''''),
   (''islimit'', ObjEntry 2 2 1 ''''), (''isprismatic'', ObjEntry 2 2 1 ''''),
   (''isrevolute'', ObjEntry 2 2 1 ''''), (''m'', ObjEntry 2 2 1 ''''),
   (''mdh'', ObjEntry 2 2 1 ''''), (''nofriction'', ObjEntry 2 2 1 ''''),
   (''offset'', ObjEntry 2 2 1 ''''), (''qlim'', ObjEntry 2 2 1 ''''),
   (''r'', ObjEntry 2 2 1 ''''), (''sigma'', ObjEntry 2 2 1 ''''),
   (''theta'', ObjEntry 2 2 1 '''')
  ]"

definition objects_ropy_robot_Prismatic :: "objentry jsobject" where
  "objects_ropy_robot_Prismatic =
  [
   (''Prismatic'', ObjEntry 2 1 1 '''')
  ]"

definition objects_ropy_robot_Prismatic_Prismatic :: "objentry jsobject" where
  "objects_ropy_robot_Prismatic_Prismatic =
  [
   (''A'', ObjEntry 2 2 1 ''''), (''B'', ObjEntry 2 2 1 ''''), (''G'', ObjEntry 2 2 1 ''''),
   (''I'', ObjEntry 2 2 1 ''''), (''Jm'', ObjEntry 2 2 1 ''''), (''Tc'', ObjEntry 2 2 1 ''''),
   (''a'', ObjEntry 2 2 1 ''''), (''alpha'', ObjEntry 2 2 1 ''''),
   (''d'', ObjEntry 2 2 1 ''''), (''dyn'', ObjEntry 2 2 1 ''''),
   (''flip'', ObjEntry 2 2 1 ''''), (''friction'', ObjEntry 2 2 1 ''''),
   (''islimit'', ObjEntry 2 2 1 ''''), (''isprismatic'', ObjEntry 2 2 1 ''''),
   (''isrevolute'', ObjEntry 2 2 1 ''''), (''m'', ObjEntry 2 2 1 ''''),
   (''mdh'', ObjEntry 2 2 1 ''''), (''nofriction'', ObjEntry 2 2 1 ''''),
   (''offset'', ObjEntry 2 2 1 ''''), (''qlim'', ObjEntry 2 2 1 ''''),
   (''r'', ObjEntry 2 2 1 ''''), (''sigma'', ObjEntry 2 2 1 ''''),
   (''theta'', ObjEntry 2 2 1 '''')
  ]"

definition objects_ropy_robot_Revolute :: "objentry jsobject" where
  "objects_ropy_robot_Revolute =
  [
   (''Revolute'', ObjEntry 2 1 1 '''')
  ]"

definition objects_ropy_robot_Revolute_Revolute :: "objentry jsobject" where
  "objects_ropy_robot_Revolute_Revolute =
  [
   (''A'', ObjEntry 2 2 1 ''''), (''B'', ObjEntry 2 2 1 ''''), (''G'', ObjEntry 2 2 1 ''''),
   (''I'', ObjEntry 2 2 1 ''''), (''Jm'', ObjEntry 2 2 1 ''''), (''Tc'', ObjEntry 2 2 1 ''''),
   (''a'', ObjEntry 2 2 1 ''''), (''alpha'', ObjEntry 2 2 1 ''''),
   (''d'', ObjEntry 2 2 1 ''''), (''dyn'', ObjEntry 2 2 1 ''''),
   (''flip'', ObjEntry 2 2 1 ''''), (''friction'', ObjEntry 2 2 1 ''''),
   (''islimit'', ObjEntry 2 2 1 ''''), (''isprismatic'', ObjEntry 2 2 1 ''''),
   (''isrevolute'', ObjEntry 2 2 1 ''''), (''m'', ObjEntry 2 2 1 ''''),
   (''mdh'', ObjEntry 2 2 1 ''''), (''nofriction'', ObjEntry 2 2 1 ''''),
   (''offset'', ObjEntry 2 2 1 ''''), (''qlim'', ObjEntry 2 2 1 ''''),
   (''r'', ObjEntry 2 2 1 ''''), (''sigma'', ObjEntry 2 2 1 ''''),
   (''theta'', ObjEntry 2 2 1 '''')
  ]"

definition objects_ropy_robot_SerialLink :: "objentry jsobject" where
  "objects_ropy_robot_SerialLink =
  [
   (''SerialLink'', ObjEntry 2 1 1 '''')
  ]"

definition objects_ropy_robot_SerialLink_SerialLink :: "objentry jsobject" where
  "objects_ropy_robot_SerialLink_SerialLink =
  [
   (''A'', ObjEntry 2 2 1 ''''), (''a'', ObjEntry 2 2 1 ''''),
   (''accel'', ObjEntry 2 2 1 ''''), (''allfkine'', ObjEntry 2 2 1 ''''),
   (''base'', ObjEntry 2 2 1 ''''), (''cinertia'', ObjEntry 2 2 1 ''''),
   (''coriolis'', ObjEntry 2 2 1 ''''), (''d'', ObjEntry 2 2 1 ''''),
   (''delete_rne'', ObjEntry 2 2 1 ''''), (''fkine'', ObjEntry 2 2 1 ''''),
   (''friction'', ObjEntry 2 2 1 ''''), (''gravity'', ObjEntry 2 2 1 ''''),
   (''gravjac'', ObjEntry 2 2 1 ''''), (''gravload'', ObjEntry 2 2 1 ''''),
   (''ikcon'', ObjEntry 2 2 1 ''''), (''ikine3'', ObjEntry 2 2 1 ''''),
   (''ikine6s'', ObjEntry 2 2 1 ''''), (''ikine'', ObjEntry 2 2 1 ''''),
   (''ikinem'', ObjEntry 2 2 1 ''''), (''ikunc'', ObjEntry 2 2 1 ''''),
   (''inertia'', ObjEntry 2 2 1 ''''), (''islimit'', ObjEntry 2 2 1 ''''),
   (''isprismatic'', ObjEntry 2 2 1 ''''), (''isrevolute'', ObjEntry 2 2 1 ''''),
   (''isspherical'', ObjEntry 2 2 1 ''''), (''itorque'', ObjEntry 2 2 1 ''''),
   (''jacob0'', ObjEntry 2 2 1 ''''), (''jacob0v'', ObjEntry 2 2 1 ''''),
   (''jacobe'', ObjEntry 2 2 1 ''''), (''jacobev'', ObjEntry 2 2 1 ''''),
   (''jointdynamics'', ObjEntry 2 2 1 ''''), (''links'', ObjEntry 2 2 1 ''''),
   (''manuf'', ObjEntry 2 2 1 ''''), (''mdh'', ObjEntry 2 2 1 ''''),
   (''n'', ObjEntry 2 2 1 ''''), (''name'', ObjEntry 2 2 1 ''''),
   (''nofriction'', ObjEntry 2 2 1 ''''), (''offset'', ObjEntry 2 2 1 ''''),
   (''pay'', ObjEntry 2 2 1 ''''), (''payload'', ObjEntry 2 2 1 ''''),
   (''q'', ObjEntry 2 2 1 ''''), (''qlim'', ObjEntry 2 2 1 ''''), (''r'', ObjEntry 2 2 1 ''''),
   (''rne'', ObjEntry 2 2 1 ''''), (''theta'', ObjEntry 2 2 1 ''''),
   (''todegrees'', ObjEntry 2 2 1 ''''), (''tool'', ObjEntry 2 2 1 ''''),
   (''toradians'', ObjEntry 2 2 1 ''''), (''twists'', ObjEntry 2 2 1 '''')
  ]"

definition index_objects :: "objentry jsobject jsobject" where
  "index_objects =
  [
   (''ropy.robot'', objects_ropy_robot),
   (''ropy.robot.Link'', objects_ropy_robot_Link),
   (''ropy.robot.Link.Link'', objects_ropy_robot_Link_Link),
   (''ropy.robot.Prismatic'', objects_ropy_robot_Prismatic),
   (''ropy.robot.Prismatic.Prismatic'', objects_ropy_robot_Prismatic_Prismatic),
   (''ropy.robot.Revolute'', objects_ropy_robot_Revolute),
   (''ropy.robot.Revolute.Revolute'', objects_ropy_robot_Revolute_Revolute),
   (''ropy.robot.SerialLink'', objects_ropy_robot_SerialLink),
   (''ropy.robot.SerialLink.SerialLink'', objects_ropy_robot_SerialLink_SerialLink)
  ]"

definition index_objnames :: "string list jsobject" where
  "index_objnames =
  [
   (''0'', [''py'', ''module'', ''Python module'']),
   (''1'', [''py'', ''class'', ''Python class'']),
   (''2'', [''py'', ''method'', ''Python method''])
  ]"

definition index_objtypes :: "string jsobject" where
  "index_objtypes =
  [
   (''0'', ''py:module''), (''1'', ''py:class''), (''2'', ''py:method'')
  ]"

definition index_terms :: "posting jsobject" where
  "index_terms =
  [
   (''1x1'', Doc 2), (''1x2'', Doc 2), (''1x6'', Doc 2), (''1xm'', Doc 2), (''1xn'', Doc 2),
   (''2x1'', Doc 2), (''3x3'', Doc 1), (''3xm'', Doc 2), (''3xn'', Doc 1),
   (''4x4'', Docs [1, 2]), (''4x4xm'', Doc 2), (''6xn'', Doc 2), (''6xnxm'', Doc 2),
   (''abstract'', Doc 1), (''boolean'', Doc 2), (''case'', Docs [1, 2]), (''class'', Doc 0),
   (''default'', Docs [1, 2]), (''final'', Doc 2), (''float'', Docs [1, 2]),
   (''function'', Docs [0, 1]), (''import'', Doc 1), (''int'', Docs [1, 2]), (''new'', Doc 1),
   (''null'', Doc 2), (''return'', Docs [1, 2]), (''super'', Doc 1), (''true'', Docs [1, 2]),
   (''For'', Docs [1, 2]), (''Not'', Doc 2), (''Such'', Doc 2), (''The'', Docs [1, 2]),
   (''There'', Doc 1), (''These'', Doc 1), (''Useful'', Docs [1, 2]), (''Uses'', Doc 2),
   (''Using'', Doc 1), (''__add__'', Doc 1), (''__iadd__'', Doc 1), (''__imul__'', Doc 1),
   (''__ipow__'', Doc 1), (''__isub__'', Doc 1), (''__itruediv__'', Doc 1),
   (''__mul__'', Doc 1), (''__pow__'', Doc 1), (''__radd__'', Doc 1), (''__rmul__'', Doc 1),
   (''__rsub__'', Doc 1), (''__sub__'', Doc 1), (''__truediv__'', Doc 1), (''abil'', Doc 1),
   (''about'', Docs [1, 2]), (''abov'', Docs [1, 2]), (''absolut'', Doc 2), (''accel'', Doc 2),
   (''acceler'', Doc 2), (''accept'', Doc 1), (''achiev'', Doc 2), (''act'', Docs [1, 2]),
   (''actuat'', Doc 2), (''add'', Docs [1, 2]), (''added'', Docs [1, 2]), (''addit'', Doc 1),
   (''adjust'', Docs [1, 2]), (''adopt'', Doc 1), (''again'', Doc 1), (''all'', Docs [1, 2]),
   (''allfkin'', Doc 2), (''allow'', Docs [1, 2]), (''along'', Doc 2), (''alpha'', Doc 2),
   (''also'', Docs [1, 2]), (''alwai'', Docs [1, 2]), (''analyt'', Doc 2), (''angl'', Doc 2),
   (''ani'', Docs [1, 2]), (''anoth'', Doc 1), (''append'', Doc 1), (''appli'', Docs [1, 2]),
   (''applic'', Docs [1, 2]), (''approach'', Docs [1, 2]), (''appropri'', Docs [1, 2]),
   (''arang'', Doc 1), (''arbitrari'', Doc 2), (''arbitrarili'', Doc 2), (''argument'', Doc 1),
   (''arithmet'', Doc 1), (''arm'', Doc 2), (''armatur'', Doc 2), (''arrai'', Docs [1, 2]),
   (''array_lik'', Doc 1), (''arrow'', Doc 1), (''asm'', Doc 2), (''aspect'', Doc 1),
   (''assign'', Docs [1, 2]), (''associ'', Doc 1), (''assum'', Doc 2), (''attempt'', Doc 2),
   (''author'', Doc 2), (''autosc'', Doc 1), (''avail'', Doc 1), (''axes'', Docs [1, 2]),
   (''axi'', Docs [1, 2]), (''back'', Doc 1), (''backend'', Doc 1), (''balanc'', Doc 1),
   (''base'', Docs [1, 2]), (''becaus'', Doc 1), (''becom'', Doc 2), (''been'', Doc 2),
   (''befor'', Doc 2), (''being'', Docs [1, 2]), (''belong'', Doc 1), (''between'', Doc 2),
   (''binari'', Doc 1), (''bodi'', Doc 2), (''bold'', Doc 1), (''bool'', Doc 2),
   (''both'', Doc 1), (''brute'', Doc 2), (''bundl'', Doc 1), (''calcul'', Doc 2),
   (''call'', Doc 1), (''can'', Docs [1, 2]), (''cartesian'', Doc 2), (''centr'', Doc 2),
   (''centripet'', Doc 2), (''chain'', Doc 2), (''chap'', Doc 2), (''check'', Doc 2),
   (''choic'', Doc 2), (''chosen'', Doc 2), (''cinertia'', Doc 2), (''clear'', Doc 1),
   (''code'', Doc 2), (''col'', Doc 2), (''color'', Doc 1), (''column'', Docs [1, 2]),
   (''com'', Doc 2), (''combin'', Doc 1), (''common'', Docs [1, 2]), (''compar'', Doc 2),
   (''complet'', Doc 2), (''composit'', Doc 1), (''comprehens'', Doc 1), (''comput'', Doc 2),
   (''computation'', Doc 2), (''concret'', Doc 2), (''condit'', Doc 2), (''configur'', Doc 2),
   (''congruent'', Doc 2), (''conjunct'', Doc 2), (''consecut'', Docs [1, 2]),
   (''consid'', Doc 2), (''consider'', Docs [1, 2]), (''constant'', Docs [1, 2]),
   (''constraint'', Doc 1), (''construct'', Doc 1), (''contai'', Doc 1),
   (''contain'', Docs [1, 2]), (''continu'', Doc 2), (''contraint'', Doc 2),
   (''contribut'', Doc 2), (''control'', Doc 2), (''conveni'', Doc 1),
   (''convert'', Docs [1, 2]), (''coordin'', Docs [1, 2]), (''copi'', Docs [1, 2]),
   (''corioli'', Doc 2), (''cork'', Doc 2), (''correspond'', Doc 2), (''cos'', Doc 1),
   (''could'', Doc 1), (''coulomb'', Doc 2), (''coupl'', Doc 2), (''creat'', Doc 1),
   (''current'', Doc 2), (''deal'', Doc 1), (''defin'', Doc 2), (''deg'', Docs [1, 2]),
   (''degre'', Docs [1, 2]), (''del'', Doc 1), (''delete_rn'', Doc 2), (''denavit'', Doc 2),
   (''depend'', Docs [1, 2]), (''deriv'', Docs [1, 2]), (''describ'', Docs [1, 2]),
   (''desir'', Doc 2), (''determin'', Doc 2), (''develop'', Doc 2), (''diagon'', Doc 2),
   (''dict'', Doc 1), (''differ'', Doc 1), (''difficult'', Doc 2), (''dim'', Doc 1),
   (''dimens'', Docs [1, 2]), (''dimension'', Doc 1), (''direct'', Doc 2), (''disabl'', Doc 2),
   (''displai'', Doc 1), (''distanc'', Doc 2), (''disturb'', Doc 2), (''document'', Doc 1),
   (''doe'', Docs [1, 2]), (''dof'', Doc 2), (''done'', Doc 1), (''down'', Doc 2),
   (''downsid'', Doc 1), (''drawn'', Doc 1), (''due'', Doc 2), (''dunder'', Doc 1),
   (''dyn'', Doc 2), (''dynam'', Doc 2), (''each'', Docs [1, 2]), (''effect'', Doc 2),
   (''effector'', Doc 2), (''effici'', Doc 2), (''either'', Docs [1, 2]), (''elbow'', Doc 2),
   (''elbow_up'', Doc 2), (''element'', Docs [1, 2]), (''elementwis'', Doc 1),
   (''elimin'', Doc 2), (''elment'', Doc 1), (''els'', Doc 2), (''enabl'', Doc 1),
   (''encount'', Doc 2), (''end'', Doc 2), (''enforc'', Docs [1, 2]), (''ensur'', Doc 1),
   (''entir'', Docs [1, 2]), (''enumer'', Doc 1), (''environ'', Doc 1), (''equal'', Doc 2),
   (''equat'', Doc 2), (''equival'', Docs [1, 2]), (''err'', Doc 2), (''error'', Doc 2),
   (''estim'', Doc 2), (''eul'', Doc 1), (''evalu'', Doc 2), (''everi'', Doc 1),
   (''exampl'', Docs [1, 2]), (''exceed'', Doc 2), (''except'', Docs [1, 2]),
   (''exist'', Doc 1), (''explicit'', Doc 2), (''explicitli'', Doc 2), (''exponenti'', Doc 1),
   (''express'', Docs [1, 2]), (''extend'', Doc 1), (''extra'', Doc 1), (''extract'', Doc 1),
   (''eye'', Doc 2), (''fail'', Doc 2), (''fals'', Doc 2), (''familiar'', Doc 1),
   (''faster'', Doc 2), (''feasibl'', Doc 2), (''featherston'', Doc 2), (''fewer'', Doc 2),
   (''fext'', Doc 2), (''figur'', Doc 1), (''first'', Docs [1, 2]), (''fkine'', Doc 2),
   (''flip'', Doc 2), (''forc'', Doc 2), (''form'', Docs [1, 2]), (''format'', Doc 2),
   (''formula'', Doc 2), (''forward'', Doc 2), (''found'', Doc 2), (''four'', Doc 1),
   (''frame'', Docs [1, 2]), (''free'', Doc 2), (''freedom'', Doc 2), (''frequent'', Doc 1),
   (''friction'', Doc 2), (''from'', Docs [1, 2]), (''gain'', Doc 2), (''gear'', Doc 2),
   (''gearbox'', Doc 2), (''gener'', Doc 2), (''generalis'', Doc 2), (''give'', Doc 1),
   (''given'', Docs [1, 2]), (''gnarli'', Doc 1), (''grav'', Doc 2), (''gravit'', Doc 2),
   (''graviti'', Doc 2), (''gravjac'', Doc 2), (''gravload'', Doc 2), (''green'', Doc 1),
   (''grid'', Doc 1), (''group'', Doc 1), (''guarante'', Doc 1), (''guess'', Doc 2),
   (''hamilton'', Doc 1), (''happen'', Doc 2), (''hartenberg'', Doc 2), (''has'', Docs [1, 2]),
   (''have'', Docs [1, 2]), (''haviland'', Doc 2), (''here'', Doc 1), (''high'', Doc 0),
   (''highli'', Doc 2), (''hold'', Docs [1, 2]), (''homogen'', Docs [1, 2]),
   (''homogenen'', Doc 2), (''howev'', Doc 1), (''hutchinson'', Doc 2), (''ident'', Doc 1),
   (''identifi'', Doc 2), (''ignor'', Doc 2), (''ikcon'', Doc 2), (''ikin'', Doc 2),
   (''ikine3'', Doc 2), (''ikine6'', Doc 2), (''ikine_sym'', Doc 2), (''ikinem'', Doc 2),
   (''ikunc'', Doc 2), (''ilimit'', Doc 2), (''implement'', Doc 2), (''impos'', Doc 2),
   (''includ'', Docs [1, 2]), (''incorpor'', Doc 2), (''index'', Doc 1), (''indic'', Doc 2),
   (''industri'', Doc 2), (''inerti'', Doc 2), (''inertia'', Doc 2), (''inform'', Docs [1, 2]),
   (''inherit'', Doc 1), (''initi'', Doc 2), (''initialis'', Doc 2), (''input'', Docs [1, 2]),
   (''insert'', Doc 1), (''instal'', Doc 1), (''instanc'', Doc 1), (''instead'', Doc 2),
   (''integr'', Doc 2), (''intend'', Doc 2), (''intern'', Doc 2), (''interpret'', Doc 2),
   (''intersect'', Doc 2), (''introduct'', Doc 0), (''inv'', Docs [1, 2]),
   (''invers'', Docs [1, 2]), (''invoc'', Doc 2), (''invok'', Doc 1), (''involv'', Doc 2),
   (''islimit'', Doc 2), (''isprismat'', Doc 2), (''isrevolut'', Doc 2), (''isspher'', Doc 2),
   (''item'', Doc 1), (''iter'', Docs [1, 2]), (''itorqu'', Doc 2), (''jacob0'', Doc 2),
   (''jacob0v'', Doc 2), (''jacob'', Doc 2), (''jacobev'', Doc 2), (''jacobian'', Doc 2),
   (''jess'', Doc 2), (''joint'', Doc 2), (''jointdynam'', Doc 2), (''jointlimit'', Doc 2),
   (''journa'', Doc 2), (''journal'', Doc 2), (''just'', Doc 1), (''keep'', Doc 1),
   (''keyword'', Doc 1), (''kind'', Doc 2), (''kinemat'', Doc 2), (''known'', Doc 2),
   (''kr5'', Doc 2), (''kuka'', Doc 2), (''lambda'', Doc 2), (''larg'', Doc 2),
   (''last'', Docs [1, 2]), (''latter'', Doc 1), (''left'', Docs [1, 2]), (''lefti'', Doc 2),
   (''len'', Doc 1), (''length'', Docs [1, 2]), (''less'', Doc 2), (''let'', Doc 1),
   (''level'', Doc 0), (''levenberg'', Doc 2), (''like'', Docs [1, 2]), (''limit'', Doc 2),
   (''line'', Docs [1, 2]), (''linear'', Doc 2), (''link'', Doc 0), (''list'', Doc 2),
   (''lmfsolv'', Doc 2), (''load'', Doc 2), (''locaat'', Doc 2), (''local'', Doc 2),
   (''locat'', Doc 2), (''low'', Doc 0), (''mai'', Doc 1), (''mani'', Doc 2),
   (''manipul'', Docs [1, 2]), (''manuf'', Doc 2), (''manufactur'', Doc 2),
   (''map'', Docs [1, 2]), (''marquadt'', Doc 2), (''mask'', Doc 2), (''mass'', Doc 2),
   (''math'', Doc 0), (''mathbb'', Doc 1), (''mathemat'', Doc 1), (''matplotlib'', Doc 1),
   (''matric'', Docs [1, 2]), (''matrix'', Docs [1, 2]), (''max'', Doc 2),
   (''maximum'', Doc 2), (''mdh'', Doc 2), (''mean'', Docs [1, 2]), (''measur'', Doc 2),
   (''mechan'', Doc 2), (''memori'', Doc 2), (''merit'', Doc 1), (''method'', Docs [1, 2]),
   (''might'', Doc 2), (''min'', Doc 2), (''minim'', Docs [1, 2]), (''minimis'', Doc 2),
   (''minimum'', Doc 2), (''mix'', Doc 1), (''mixtur'', Doc 1), (''model'', Doc 2),
   (''modifi'', Doc 2), (''modul'', Doc 1), (''more'', Doc 2), (''most'', Docs [1, 2]),
   (''motor'', Doc 2), (''move'', Docs [1, 2]), (''much'', Docs [1, 2]),
   (''multi'', Docs [1, 2]), (''multipl'', Docs [1, 2]), (''multipli'', Doc 1),
   (''must'', Doc 2), (''name'', Docs [1, 2]), (''namespa'', Doc 1),
   (''ndarrai'', Docs [1, 2]), (''ndash'', Doc 1), (''need'', Doc 1), (''neg'', Doc 2),
   (''nfrobot'', Doc 2), (''nofrict'', Doc 2), (''nolm'', Doc 2), (''non'', Doc 2),
   (''nonam'', Doc 2), (''none'', Doc 2), (''nonlinear'', Doc 2), (''norm'', Docs [1, 2]),
   (''notat'', Doc 1), (''note'', Docs [1, 2]), (''now'', Doc 1), (''number'', Docs [1, 2]),
   (''numer'', Docs [1, 2]), (''numpi'', Docs [1, 2]), (''nxk'', Doc 2),
   (''nxm'', Docs [1, 2]), (''nxn'', Doc 2), (''nxnxk'', Doc 2), (''obei'', Doc 1),
   (''object'', Doc 2), (''obtain'', Doc 2), (''off'', Doc 2), (''offset'', Doc 2),
   (''often'', Docs [1, 2]), (''omega'', Doc 2), (''one'', Docs [1, 2]),
   (''onli'', Docs [1, 2]), (''onlin'', Doc 1), (''oper'', Doc 2), (''operand'', Doc 1),
   (''opposit'', Doc 2), (''optim'', Doc 2), (''optimis'', Doc 2), (''option'', Docs [1, 2]),
   (''order'', Doc 1), (''orient'', Docs [1, 2]), (''orin'', Doc 2), (''orthogon'', Doc 1),
   (''other'', Docs [1, 2]), (''otherwis'', Docs [1, 2]), (''output'', Docs [1, 2]),
   (''over'', Docs [1, 2]), (''overwrit'', Doc 2), (''packag'', Doc 1), (''pai'', Doc 2),
   (''paramet'', Doc 2), (''parent'', Doc 1), (''particular'', Doc 1),
   (''particularli'', Doc 1), (''pass'', Docs [1, 2]), (''paul'', Doc 2), (''payload'', Doc 2),
   (''peform'', Doc 2), (''per'', Doc 2), (''perform'', Doc 1), (''plane'', Doc 2),
   (''plot'', Doc 1), (''plt'', Doc 1), (''point'', Docs [1, 2]), (''polymorph'', Doc 1),
   (''poor'', Doc 2), (''pop'', Doc 1), (''pose'', Doc 2), (''posese3'', Doc 1),
   (''posit'', Docs [1, 2]), (''possibl'', Doc 1), (''power'', Doc 1), (''present'', Doc 2),
   (''previou'', Doc 2), (''print'', Doc 1), (''prismat'', Doc 0), (''product'', Docs [1, 2]),
   (''properti'', Docs [1, 2]), (''proport'', Doc 2), (''prototyp'', Doc 2),
   (''provdid'', Doc 1), (''provid'', Doc 1), (''puma560'', Doc 2), (''puma'', Doc 2),
   (''pweight'', Doc 2), (''python'', Doc 1), (''qdd'', Doc 2), (''qdeg'', Doc 2),
   (''qlim'', Doc 2), (''qlimit'', Doc 2), (''qnorm'', Doc 1), (''qprint'', Doc 1),
   (''qqmul'', Doc 1), (''qrad'', Doc 2), (''quat'', Doc 1), (''quick'', Doc 1),
   (''radian'', Doc 2), (''rais'', Doc 1), (''rather'', Doc 2), (''ratio'', Doc 2),
   (''reach'', Doc 2), (''read'', Doc 1), (''recent'', Doc 1), (''red'', Doc 1),
   (''refer'', Doc 2), (''reflect'', Doc 2), (''regular'', Doc 1), (''reject'', Doc 2),
   (''rel'', Doc 1), (''relat'', Docs [1, 2]), (''relev'', Doc 1), (''remov'', Docs [1, 2]),
   (''repeat'', Doc 1), (''replac'', Doc 1), (''replic'', Doc 1), (''repres'', Docs [1, 2]),
   (''represent'', Docs [1, 2]), (''requir'', Docs [1, 2]), (''research'', Doc 2),
   (''respect'', Doc 2), (''result'', Docs [1, 2]), (''retrun'', Doc 2), (''revolut'', Doc 0),
   (''right'', Docs [1, 2]), (''righti'', Doc 2), (''rigid'', Doc 2), (''ring'', Doc 1),
   (''rlimit'', Doc 2), (''rne'', Doc 2), (''robot'', Docs [1, 2]), (''ropi'', Doc 2),
   (''rotat'', Docs [1, 2]), (''roti'', Doc 1), (''rotx'', Doc 1), (''row'', Docs [1, 2]),
   (''rpy2r'', Doc 1), (''rtbpose'', Doc 1), (''rtype'', Doc 2), (''rule'', Doc 1),
   (''rviz'', Doc 1), (''safeti'', Doc 1), (''same'', Docs [1, 2]), (''scalar'', Docs [1, 2]),
   (''scalarto'', Doc 1), (''scale'', Doc 2), (''se2'', Doc 1), (''se3'', Docs [1, 2]),
   (''search'', Doc 2), (''section'', Docs [1, 2]), (''see'', Doc 1), (''seen'', Doc 2),
   (''semant'', Doc 1), (''separ'', Docs [1, 2]), (''sequenc'', Docs [1, 2]),
   (''seri'', Doc 2), (''serial'', Doc 2), (''seriallink'', Doc 0), (''set'', Docs [1, 2]),
   (''sever'', Doc 1), (''shape'', Doc 1), (''should'', Doc 2), (''shoulder'', Doc 2),
   (''show'', Docs [1, 2]), (''shown'', Docs [1, 2]), (''sigma'', Doc 2), (''sign'', Doc 2),
   (''similar'', Doc 1), (''similarli'', Doc 1), (''simpl'', Doc 1), (''simul'', Doc 2),
   (''sin'', Doc 1), (''sinc'', Doc 2), (''singl'', Doc 1), (''singular'', Doc 2),
   (''six'', Doc 2), (''size'', Doc 2), (''slam'', Doc 1), (''slice'', Doc 1),
   (''slimit'', Doc 2), (''slow'', Doc 2), (''smooth'', Doc 2), (''so2'', Doc 1),
   (''so3'', Doc 1), (''solut'', Doc 2), (''solv'', Doc 2), (''solver'', Doc 2),
   (''some'', Docs [1, 2]), (''somewhat'', Doc 1), (''sourc'', Doc 2),
   (''space'', Docs [1, 2]), (''span'', Doc 2), (''spatial'', Docs [0, 2]),
   (''spatialmath'', Doc 1), (''specif'', Doc 2), (''specifi'', Doc 2), (''spheric'', Doc 2),
   (''spong'', Doc 2), (''springer'', Doc 2), (''standard'', Docs [1, 2]),
   (''stanford'', Doc 2), (''state'', Doc 2), (''step'', Doc 2), (''stiff'', Doc 2),
   (''stop'', Doc 1), (''store'', Doc 2), (''string'', Docs [1, 2]), (''style'', Doc 1),
   (''subclass'', Docs [1, 2]), (''subtract'', Doc 1), (''success'', Doc 2), (''sum'', Doc 1),
   (''summer'', Doc 2), (''sumsqr'', Doc 2), (''superclass'', Doc 2), (''suppli'', Doc 2),
   (''support'', Doc 2), (''sym'', Doc 1), (''symbol'', Doc 2), (''symmetr'', Doc 2),
   (''sympi'', Doc 1), (''system'', Doc 2), (''tai'', Doc 2), (''taken'', Docs [1, 2]),
   (''tall'', Doc 2), (''tau'', Doc 2), (''taub'', Doc 2), (''taug'', Doc 2),
   (''taui'', Doc 2), (''tb_optpars'', Doc 1), (''tension'', Doc 1), (''term'', Doc 2),
   (''test'', Doc 2), (''than'', Doc 2), (''thei'', Doc 1), (''them'', Doc 1),
   (''theta'', Docs [1, 2]), (''thi'', Docs [1, 2]), (''thing'', Doc 1),
   (''third'', Docs [1, 2]), (''those'', Doc 2), (''though'', Doc 2), (''three'', Doc 2),
   (''through'', Doc 2), (''time'', Docs [1, 2]), (''tjhe'', Doc 1), (''todegre'', Doc 2),
   (''tol'', Doc 2), (''toler'', Doc 2), (''tool'', Doc 2), (''toolbox'', Doc 1),
   (''toradian'', Doc 2), (''torqu'', Doc 2), (''traceback'', Doc 1), (''trajecotri'', Doc 2),
   (''trajectori'', Docs [1, 2]), (''transfer'', Doc 2), (''transform'', Docs [1, 2]),
   (''transl2'', Doc 1), (''transl'', Doc 1), (''translat'', Doc 2), (''transmiss'', Doc 2),
   (''transpos'', Doc 2), (''trap'', Doc 2), (''treat'', Doc 2), (''tricki'', Doc 2),
   (''trot2'', Doc 1), (''trotx'', Doc 1), (''trplot2'', Doc 1), (''trplot'', Doc 1),
   (''tupl'', Docs [1, 2]), (''ture'', Doc 2), (''twist'', Doc 2), (''two'', Doc 1),
   (''twolink'', Doc 2), (''type'', Docs [1, 2]), (''typeerror'', Doc 1), (''typic'', Doc 1),
   (''unchang'', Doc 2), (''under'', Doc 2), (''underactu'', Doc 2), (''underpin'', Doc 1),
   (''unimport'', Doc 2), (''uniqu'', Doc 2), (''unitquaternion'', Doc 1), (''upsid'', Doc 1),
   (''use'', Docs [1, 2]), (''used'', Docs [1, 2]), (''useful'', Doc 2), (''userlist'', Doc 1),
   (''uses'', Doc 2), (''using'', Docs [1, 2]), (''valid'', Doc 1), (''valu'', Docs [1, 2]),
   (''valueerror'', Doc 1), (''variabl'', Docs [1, 2]), (''varieti'', Doc 1),
   (''variou'', Doc 2), (''vector'', Doc 2), (''veloc'', Doc 2), (''veri'', Doc 2),
   (''vialat'', Doc 2), (''vidyasagar'', Doc 2), (''viscou'', Doc 2),
   (''vision'', Docs [1, 2]), (''vol'', Doc 2), (''wai'', Doc 1), (''walker'', Doc 2),
   (''weight'', Doc 2), (''well'', Doc 1), (''went'', Doc 2), (''what'', Docs [1, 2]),
   (''when'', Docs [1, 2]), (''where'', Docs [1, 2]), (''which'', Docs [1, 2]),
   (''width'', Doc 1), (''wilei'', Doc 2), (''wise'', Doc 1), (''wish'', Doc 1),
   (''within'', Doc 2), (''without'', Doc 2), (''work'', Docs [1, 2]), (''workspac'', Doc 1),
   (''world'', Docs [1, 2]), (''would'', Doc 1), (''wrench'', Doc 2), (''wrist'', Doc 2),
   (''wrist_flip'', Doc 2), (''write'', Doc 1), (''wrong'', Doc 2), (''yet'', Docs [1, 2]),
   (''ymin'', Doc 2), (''you'', Doc 1), (''zero'', Docs [1, 2]), (''zhang'', Doc 2),
   (''zip'', Doc 1)
  ]"

definition index_titles :: "string list" where
  "index_titles = [''Robotics Toolbox for Python'', ''Introduction'', ''Classes and functions'']"

definition index_titleterms :: "posting jsobject" where
  "index_titleterms =
  [
   (''class'', Docs [1, 2]), (''function'', Doc 2), (''capabl'', Doc 1), (''compat'', Doc 1),
   (''graphic'', Doc 1), (''high'', Doc 1), (''introduct'', Doc 1), (''level'', Doc 1),
   (''link'', Doc 2), (''list'', Doc 1), (''low'', Doc 1), (''math'', Doc 1),
   (''matlab'', Doc 1), (''object'', Doc 1), (''oper'', Doc 1), (''pose'', Doc 1),
   (''prismat'', Doc 2), (''python'', Doc 0), (''quaternion'', Doc 1), (''revolut'', Doc 2),
   (''robot'', Doc 0), (''seriallink'', Doc 2), (''spatial'', Doc 1), (''support'', Doc 1),
   (''symbol'', Doc 1), (''toolbox'', Doc 0), (''unit'', Doc 1), (''vector'', Doc 1)
  ]"

definition searchindex :: index where
  "searchindex =
     \<lparr> docnames = index_docnames,
       envversion = index_envversion,
       filenames = index_filenames,
       objects = index_objects,
       objnames = index_objnames,
       objtypes = index_objtypes,
       terms = index_terms,
       titles = index_titles,
       titleterms = index_titleterms \<rparr>"

subsection \<open>Reading the index\<close>

text \<open>
  The position of a document name in \<^verbatim>\<open>docnames\<close> is the identifier of the document;
  \<open>indexOf\<close> is JavaScript's \<^verbatim>\<open>Array.prototype.indexOf\<close>: the first position of
  the element, \<open>-1\<close> when it does not occur.
\<close>

fun indexOf :: "'a list \<Rightarrow> 'a \<Rightarrow> int" where
  "indexOf [] x = - 1"
| "indexOf (y # ys) x =
     (if y = x then 0 else (let r = indexOf ys x in if r < 0 then - 1 else r + 1))"

subsection \<open>The order in which the keys are written\<close>









subsection \<open>Lookup\<close>







section \<open>Properties of object and array reads\<close>

lemma obj_get_SomeD: "obj_get kvs k = Some v \<Longrightarrow> (k, v) \<in> set kvs"
  by (induction kvs) (auto split: option.splits if_splits)

lemma obj_get_None_iff: "obj_get kvs k = None \<longleftrightarrow> k \<notin> obj_keys kvs"
  by (induction kvs) (auto simp: obj_keys_def split: option.splits)

lemma obj_get_SomeI:
  "k \<in> obj_keys kvs \<Longrightarrow> list_all (\<lambda>(k', v'). k' = k \<longrightarrow> v' = v) kvs \<Longrightarrow> obj_get kvs k = Some v"
proof (induction kvs)
  case Nil
  then show ?case by (simp add: obj_keys_def)
next
  case (Cons e kvs)
  obtain k' v' where e: "e = (k', v')" by (cases e)
  from Cons.prems(2) e have here: "k' = k \<longrightarrow> v' = v"
    and rest: "list_all (\<lambda>(k', v'). k' = k \<longrightarrow> v' = v) kvs"
    by simp_all
  show ?case
  proof (cases "obj_get kvs k")
    case None
    then have "k \<notin> obj_keys kvs" by (simp add: obj_get_None_iff)
    with Cons.prems(1) e have "k' = k" by (simp add: obj_keys_def)
    with here None e show ?thesis by simp
  next
    case (Some w)
    then have "k \<in> obj_keys kvs" using obj_get_None_iff [of kvs k] by auto
    from Cons.IH [OF this rest] Some e show ?thesis by simp
  qed
qed

lemma indexOf_nth:
  "distinct xs \<Longrightarrow> i < length xs \<Longrightarrow> indexOf xs (xs ! i) = int i"
proof (induction xs arbitrary: i)
  case Nil
  then show ?case by simp
next
  case (Cons y ys)
  show ?case
  proof (cases i)
    case 0
    then show ?thesis by simp
  next
    case (Suc j)
    with Cons.prems have j: "j < length ys" and ne: "y \<noteq> ys ! j" and d: "distinct ys"
      by auto
    from Cons.IH [OF d j] have "indexOf ys (ys ! j) = int j" .
    with Suc ne show ?thesis by (simp add: Let_def)
  qed
qed

lemma js_tostring_small:
  "js_tostring 0 = ''0''" "js_tostring 1 = ''1''" "js_tostring 2 = ''2''"
  by (simp_all add: js_tostring_def nat_tostring.simps digit_char_def)

section \<open>Facts read off the literal\<close>

lemma searchindex_fields:
  "docnames searchindex = index_docnames"
  "envversion searchindex = index_envversion"
  "filenames searchindex = index_filenames"
  "objects searchindex = index_objects"
  "objnames searchindex = index_objnames"
  "objtypes searchindex = index_objtypes"
  "terms searchindex = index_terms"
  "titles searchindex = index_titles"
  "titleterms searchindex = index_titleterms"
  by (simp_all add: searchindex_def)

lemma index_terms_postings:
  "list_all (\<lambda>(t, p). p \<in> {Doc 0, Doc 1, Doc 2, Docs [0, 1], Docs [0, 2], Docs [1, 2]}) index_terms"
  by (simp add: index_terms_def)

lemma terms_posting_cases:
  assumes "obj_get (terms searchindex) t = Some p"
  shows "p \<in> {Doc 0, Doc 1, Doc 2, Docs [0, 1], Docs [0, 2], Docs [1, 2]}"
proof -
  from assms have "(t, p) \<in> set index_terms"
    by (simp add: searchindex_fields obj_get_SomeD)
  with index_terms_postings show ?thesis
    unfolding list_all_iff by blast
qed

lemma terms_class: "obj_get (terms searchindex) ''class'' = Some (Doc 0)"
proof -
  have "''class'' \<in> obj_keys index_terms"
    by (simp add: obj_keys_def index_terms_def)
  moreover have "list_all (\<lambda>(k', v'). k' = ''class'' \<longrightarrow> v' = Doc 0) index_terms"
    by (simp add: index_terms_def)
  ultimately show ?thesis
    by (simp add: searchindex_fields obj_get_SomeI)
qed

lemma terms_4x4: "obj_get (terms searchindex) ''4x4'' = Some (Docs [1, 2])"
proof -
  have "''4x4'' \<in> obj_keys index_terms"
    by (simp add: obj_keys_def index_terms_def)
  moreover have "list_all (\<lambda>(k', v'). k' = ''4x4'' \<longrightarrow> v' = Docs [1, 2]) index_terms"
    by (simp add: index_terms_def)
  ultimately show ?thesis
    by (simp add: searchindex_fields obj_get_SomeI)
qed


section \<open>No key of the term index is written twice\<close>


















section \<open>The term index\<close>

text \<open>
  C1. For every term key of the \<^verbatim>\<open>terms\<close> mapping, every document identifier in
  the value stored under it, whether the value is a bare number or an array, is a valid
  index into \<^verbatim>\<open>docnames\<close>: an integer \<open>d\<close> with \<open>0 \<le> d < docnames.length\<close>, which
  here means 0, 1 or 2, so that \<^verbatim>\<open>docnames[d]\<close> is defined.
\<close>

theorem terms_docs_valid:
  assumes "obj_get (terms searchindex) t = Some p"
    and "d \<in> set (posting_docs p)"
  shows "0 \<le> d \<and> d < int (length (docnames searchindex)) \<and> d \<in> {0, 1, 2}
    \<and> arr_get (docnames searchindex) d \<noteq> None"
proof -
  have len: "length (docnames searchindex) = 3"
    by (simp add: searchindex_fields index_docnames_def)
  from terms_posting_cases [OF assms(1)] assms(2) have "d \<in> {0, 1, 2}"
    by auto
  with len show ?thesis
    by (auto simp: arr_get_def)
qed

theorem terms_docs_valid_witness:
  "obj_get (terms searchindex) ''4x4'' = Some (Docs [1, 2])
   \<and> (2::int) \<in> set (posting_docs (Docs [1, 2]))
   \<and> (0::int) \<le> 2 \<and> 2 < int (length (docnames searchindex))
   \<and> arr_get (docnames searchindex) 2 \<noteq> None"
proof -
  have m: "(2::int) \<in> set (posting_docs (Docs [1, 2]))" by simp
  from terms_docs_valid [OF terms_4x4 m] terms_4x4 m show ?thesis by simp
qed

text \<open>
  C8. Every array stored in the \<^verbatim>\<open>terms\<close> mapping is strictly ascending in the
  document identifier, hence free of duplicates: it denotes a set, enumerated in the
  order of the identifiers.
\<close>

theorem postings_strictly_ascending:
  assumes "obj_get (terms searchindex) t = Some (Docs ds)"
  shows "sorted_wrt (<) ds \<and> distinct ds"
  using terms_posting_cases [OF assms] by auto

theorem postings_strictly_ascending_witness:
  "obj_get (terms searchindex) ''4x4'' = Some (Docs [1, 2])
   \<and> sorted_wrt (<) [1, 2 :: int] \<and> distinct [1, 2 :: int]"
  using postings_strictly_ascending [OF terms_4x4] terms_4x4 by simp

text \<open>
  C10. A term that occurs in exactly one document is stored as a bare number and never
  as an array of one element: whenever the value under a key has a single document, it
  is of the form \<open>Doc d\<close>. Both forms do occur (\<^verbatim>\<open>"class":0\<close> and \<^verbatim>\<open>"4x4":[1,2]\<close>),
  so a reader of \<^verbatim>\<open>terms\<close> meets numbers as well as arrays.
\<close>

theorem single_doc_bare:
  "(obj_get (terms searchindex) t = Some p
      \<longrightarrow> length (posting_docs p) = 1 \<or> card (set (posting_docs p)) = 1
      \<longrightarrow> (\<exists>d. p = Doc d))
   \<and> obj_get (terms searchindex) ''class'' = Some (Doc 0)
   \<and> obj_get (terms searchindex) ''4x4'' = Some (Docs [1, 2])"
proof -
  have "\<exists>d. p = Doc d"
    if p: "obj_get (terms searchindex) t = Some p"
      and one: "length (posting_docs p) = 1 \<or> card (set (posting_docs p)) = 1"
  proof -
    from terms_posting_cases [OF p]
    consider "p = Doc 0" | "p = Doc 1" | "p = Doc 2"
      | "p = Docs [0, 1]" | "p = Docs [0, 2]" | "p = Docs [1, 2]"
      by auto
    then show ?thesis
      using one by cases simp_all
  qed
  with terms_class terms_4x4 show ?thesis by blast
qed

theorem single_doc_bare_witness:
  "obj_get (terms searchindex) ''class'' = Some (Doc 0)
   \<and> length (posting_docs (Doc 0)) = 1
   \<and> (\<exists>d. Doc 0 = Doc d)"
proof -
  have one: "length (posting_docs (Doc 0)) = 1 \<or> card (set (posting_docs (Doc 0))) = 1"
    by simp
  from single_doc_bare [of "''class''" "Doc 0"] terms_class one show ?thesis by simp
qed

section \<open>The document tables\<close>

text \<open>
  C4. Document identifiers are unique: \<^verbatim>\<open>docnames\<close> holds no name twice, so taking a
  name to its identifier (its position in \<^verbatim>\<open>docnames\<close>) is injective on the names of
  the table, and for every valid identifier \<open>i\<close> the name \<^verbatim>\<open>docnames[i]\<close> is taken back
  to \<open>i\<close>.
\<close>

theorem docnames_unique_roundtrip:
  "distinct (docnames searchindex)
   \<and> inj_on (indexOf (docnames searchindex)) (set (docnames searchindex))
   \<and> (0 \<le> i \<longrightarrow> i < int (length (docnames searchindex))
        \<longrightarrow> (\<exists>name. arr_get (docnames searchindex) i = Some name
              \<and> indexOf (docnames searchindex) name = i))"
proof -
  have d: "distinct (docnames searchindex)"
    by (simp add: searchindex_fields index_docnames_def)
  have inj: "inj_on (indexOf (docnames searchindex)) (set (docnames searchindex))"
  proof (rule inj_onI)
    fix a b
    assume "a \<in> set (docnames searchindex)" and "b \<in> set (docnames searchindex)"
      and eq: "indexOf (docnames searchindex) a = indexOf (docnames searchindex) b"
    then obtain m n where m: "m < length (docnames searchindex)" "a = docnames searchindex ! m"
      and n: "n < length (docnames searchindex)" "b = docnames searchindex ! n"
      by (auto simp: in_set_conv_nth)
    from eq m n have "int m = int n"
      by (simp add: indexOf_nth [OF d])
    with m n show "a = b" by simp
  qed
  have rt: "\<exists>name. arr_get (docnames searchindex) i = Some name
      \<and> indexOf (docnames searchindex) name = i"
    if "0 \<le> i" and "i < int (length (docnames searchindex))"
  proof -
    from that have "nat i < length (docnames searchindex)" by simp
    from indexOf_nth [OF d this] that show ?thesis
      by (simp add: arr_get_def)
  qed
  from d inj rt show ?thesis by blast
qed

theorem docnames_unique_roundtrip_witness:
  "(0::int) \<le> 2 \<and> 2 < int (length (docnames searchindex))
   \<and> arr_get (docnames searchindex) 2 = Some ''roboticstoolbox''
   \<and> indexOf (docnames searchindex) ''roboticstoolbox'' = 2"
  using docnames_unique_roundtrip [of 2]
  by (simp add: searchindex_fields index_docnames_def arr_get_def)

text \<open>
  C9. \<^verbatim>\<open>docnames\<close>, \<^verbatim>\<open>filenames\<close> and \<^verbatim>\<open>titles\<close> have the same length, 3, and for
  every valid document identifier \<open>i\<close> all three reads \<^verbatim>\<open>docnames[i]\<close>,
  \<^verbatim>\<open>filenames[i]\<close> and \<^verbatim>\<open>titles[i]\<close> are defined, with \<^verbatim>\<open>filenames[i]\<close> equal to
  \<^verbatim>\<open>docnames[i]\<close> followed by \<^verbatim>\<open>.rst\<close>.
\<close>

theorem tables_aligned:
  "length (docnames searchindex) = 3
   \<and> length (filenames searchindex) = 3
   \<and> length (titles searchindex) = 3
   \<and> (0 \<le> i \<longrightarrow> i < int (length (docnames searchindex))
        \<longrightarrow> (\<exists>name file title.
              arr_get (docnames searchindex) i = Some name
              \<and> arr_get (filenames searchindex) i = Some file
              \<and> arr_get (titles searchindex) i = Some title
              \<and> file = name @ ''.rst''))"
proof -
  have len: "length (docnames searchindex) = 3" "length (filenames searchindex) = 3"
    "length (titles searchindex) = 3"
    by (simp_all add: searchindex_fields index_docnames_def index_filenames_def
        index_titles_def)
  have "\<exists>name file title.
        arr_get (docnames searchindex) i = Some name
        \<and> arr_get (filenames searchindex) i = Some file
        \<and> arr_get (titles searchindex) i = Some title
        \<and> file = name @ ''.rst''"
    if "0 \<le> i" and "i < int (length (docnames searchindex))"
  proof -
    from that len have "i = 0 \<or> i = 1 \<or> i = 2" by auto
    then show ?thesis
      by (auto simp: arr_get_def searchindex_fields index_docnames_def index_filenames_def
          index_titles_def)
  qed
  with len show ?thesis by blast
qed

theorem tables_aligned_witness:
  "(0::int) \<le> 1 \<and> 1 < int (length (docnames searchindex))
   \<and> arr_get (docnames searchindex) 1 = Some ''intro''
   \<and> arr_get (filenames searchindex) 1 = Some ''intro.rst''
   \<and> arr_get (titles searchindex) 1 = Some ''Introduction''"
  using tables_aligned [of 1]
  by (simp add: searchindex_fields index_docnames_def index_filenames_def index_titles_def
      arr_get_def)

section \<open>The object index\<close>

lemma index_objects_entries:
  "list_all (\<lambda>(prefix, members).
     list_all (\<lambda>(name, e).
       e \<in> {ObjEntry 2 0 0 ''-'', ObjEntry 2 1 1 '''', ObjEntry 2 2 1 ''''}) members)
     index_objects"
  by (simp add: index_objects_def objects_ropy_robot_def objects_ropy_robot_Link_def
      objects_ropy_robot_Link_Link_def objects_ropy_robot_Prismatic_def
      objects_ropy_robot_Prismatic_Prismatic_def objects_ropy_robot_Revolute_def
      objects_ropy_robot_Revolute_Revolute_def objects_ropy_robot_SerialLink_def
      objects_ropy_robot_SerialLink_SerialLink_def)

lemma objects_entry_cases:
  assumes "obj_get (objects searchindex) prefix = Some members"
    and "obj_get members name = Some e"
  shows "e \<in> {ObjEntry 2 0 0 ''-'', ObjEntry 2 1 1 '''', ObjEntry 2 2 1 ''''}"
proof -
  from assms(1) have "(prefix, members) \<in> set index_objects"
    by (simp add: searchindex_fields obj_get_SomeD)
  moreover from assms(2) have "(name, e) \<in> set members"
    by (rule obj_get_SomeD)
  ultimately show ?thesis
    using index_objects_entries unfolding list_all_iff by blast
qed

lemma kind_tables:
  "obj_get (objtypes searchindex) ''0'' = Some ''py:module''"
  "obj_get (objtypes searchindex) ''1'' = Some ''py:class''"
  "obj_get (objtypes searchindex) ''2'' = Some ''py:method''"
  "obj_get (objnames searchindex) ''0'' = Some [''py'', ''module'', ''Python module'']"
  "obj_get (objnames searchindex) ''1'' = Some [''py'', ''class'', ''Python class'']"
  "obj_get (objnames searchindex) ''2'' = Some [''py'', ''method'', ''Python method'']"
  by (simp_all add: searchindex_fields index_objtypes_def index_objnames_def)

lemma objects_Link_class:
  "obj_get (objects searchindex) ''ropy.robot.Link'' = Some objects_ropy_robot_Link"
  "obj_get objects_ropy_robot_Link ''Link'' = Some (ObjEntry 2 1 1 '''')"
  by (simp_all add: searchindex_fields index_objects_def objects_ropy_robot_Link_def)

text \<open>
  C5. For every fully qualified object name of the \<^verbatim>\<open>objects\<close> mapping (a prefix, a
  key of \<^verbatim>\<open>objects\<close>, and a name, a key of the object stored under the prefix), the
  entry has a kind that is a key of both \<^verbatim>\<open>objtypes\<close> and \<^verbatim>\<open>objnames\<close>, where 0 is the
  module, 1 the class and 2 the method kind, and an owning document that is a valid
  index into \<^verbatim>\<open>docnames\<close>.
\<close>

theorem objects_kind_doc_valid:
  assumes "obj_get (objects searchindex) prefix = Some members"
    and "obj_get members name = Some e"
  shows "obj_get (objtypes searchindex) (js_tostring (objtype e)) \<noteq> None
    \<and> obj_get (objnames searchindex) (js_tostring (objtype e)) \<noteq> None
    \<and> objtype e \<in> {0, 1, 2}
    \<and> map (\<lambda>k. obj_get (objtypes searchindex) (js_tostring k)) [0, 1, 2]
        = [Some ''py:module'', Some ''py:class'', Some ''py:method'']
    \<and> map (\<lambda>k. map_option (\<lambda>names. names ! 1) (obj_get (objnames searchindex) (js_tostring k)))
          [0, 1, 2]
        = [Some ''module'', Some ''class'', Some ''method'']
    \<and> 0 \<le> docindex e \<and> docindex e < int (length (docnames searchindex))
    \<and> arr_get (docnames searchindex) (docindex e) \<noteq> None"
proof -
  have len: "length (docnames searchindex) = 3"
    by (simp add: searchindex_fields index_docnames_def)
  from objects_entry_cases [OF assms]
  consider "e = ObjEntry 2 0 0 ''-''" | "e = ObjEntry 2 1 1 ''''" | "e = ObjEntry 2 2 1 ''''"
    by auto
  then show ?thesis
    by cases (simp_all add: len arr_get_def js_tostring_small kind_tables)
qed

theorem objects_kind_doc_valid_witness:
  "obj_get (objects searchindex) ''ropy.robot.Link'' = Some objects_ropy_robot_Link
   \<and> obj_get objects_ropy_robot_Link ''Link'' = Some (ObjEntry 2 1 1 '''')
   \<and> obj_get (objtypes searchindex) (js_tostring 1) = Some ''py:class''
   \<and> obj_get (objnames searchindex) (js_tostring 1) = Some [''py'', ''class'', ''Python class'']
   \<and> arr_get (docnames searchindex) 2 = Some ''roboticstoolbox''"
proof -
  have doc: "arr_get (docnames searchindex) 2 = Some ''roboticstoolbox''"
    by (simp add: arr_get_def searchindex_fields index_docnames_def)
  from objects_kind_doc_valid [OF objects_Link_class] objects_Link_class doc show ?thesis
    by (simp add: js_tostring_small kind_tables)
qed

section \<open>Lookup\<close>



























end
